theory Spec2Isabelle
  imports Complex_Main "HOL-Library.Char_ord" "HOL-Library.List_Lexorder"
begin

section \<open>The Treasures API: data model\<close>

text \<open>
  The module \<^verbatim>\<open>main.py\<close> holds five request handlers over two tables, \<^verbatim>\<open>treasures\<close>
  and \<^verbatim>\<open>shops\<close>. Each handler opens a connection, runs one or two statements and
  closes the connection. The handlers are embedded as functions from a \<open>world\<close> (the
  stored tables together with the bookkeeping of connections and statements) to a
  result and the world afterwards. An exception raised by a handler is the \<open>Inl\<close> of
  its result.

  \<^verbatim>\<open>cost_at_auction\<close> is a Python \<^verbatim>\<open>float\<close>. A finite float is modelled as the rational
  number it stands for, so the comparison of two prices is that of the rational numbers.
  The arithmetic on floats (the \<^verbatim>\<open>SUM\<close> of the storage, Python's \<^verbatim>\<open>round\<close>) rounds each
  result to the nearest double, see the section on floating point.
\<close>

type_synonym cost = rat

text \<open>A row of the table \<^verbatim>\<open>treasures\<close>, columns in the order of \<^verbatim>\<open>RETURNING *\<close>.\<close>

record treasure =
  treasure_id :: int
  treasure_name :: string
  colour :: string
  age :: int
  cost_at_auction :: cost
  shop_id :: int

text \<open>A row of the table \<^verbatim>\<open>shops\<close>.\<close>

record shop =
  shop_id :: int
  shop_name :: string
  slogan :: string

text \<open>The request body \<^verbatim>\<open>class NewTreasure(BaseModel)\<close>.\<close>

record NewTreasure =
  treasure_name :: string
  colour :: string
  age :: int
  cost_at_auction :: cost
  shop_id :: int

text \<open>The dictionaries built by \<^verbatim>\<open>get_treasures\<close>, one for each fetched row.\<close>

record listed =
  treasure_id :: int
  treasure_name :: string
  colour :: string
  age :: int
  cost_at_auction :: cost
  shop_name :: string

text \<open>The dictionary under the key \<^verbatim>\<open>"treasure"\<close> built by \<^verbatim>\<open>post_treasure\<close>.\<close>

record created =
  treasure_id :: int
  treasure_name :: string
  colour :: string
  age :: int
  cost_at_auction :: cost
  shop_id :: int

text \<open>
  The dictionaries built by \<^verbatim>\<open>get_shops\<close>. The key \<^verbatim>\<open>'stock value'\<close> is set only inside
  the inner loop, so the dictionary may lack it: the field is \<open>None\<close> exactly when the
  key is absent.
\<close>

record shop_entry =
  shop_id :: int
  shop_name :: string
  slogan :: string
  stock_value :: "cost option"

text \<open>Rows as the driver returns them: positional.\<close>

type_synonym joined_row = "int \<times> string \<times> string \<times> int \<times> cost \<times> string"
type_synonym treasure_tuple = "int \<times> string \<times> string \<times> int \<times> cost \<times> int"

text \<open>
  The text of an f-string with a float in it: the float is kept as a part of the
  message, not rendered.
\<close>

datatype part = Str string | Float cost

text \<open>
  The exceptions of the module. \<open>DatabaseError\<close> carries the SQLSTATE code of the
  storage's error response.
\<close>

datatype error =
    HTTPException int string
  | ValueError "part list"
  | IndexError
  | DatabaseError string

text \<open>The statements the handlers run through \<^verbatim>\<open>conn.run\<close>.\<close>

datatype statement =
    SelectTreasuresJoinShops string string
  | InsertTreasure NewTreasure
  | SelectCostAtAuction int
  | UpdateCostAtAuction cost int
  | DeleteTreasure int
  | SelectShops
  | SelectStockValues

record world =
  treasures :: "treasure list"
  shops :: "shop list"
  next_treasure_id :: int
  opened :: nat
  closed :: nat
  statements :: "statement list"

section \<open>Floating point\<close>








section \<open>The storage handle\<close>

text \<open>
  Modelled from the spec: \<^verbatim>\<open>db/connection.py\<close> (\<^verbatim>\<open>connect_to_db\<close>) is not among the
  sources. The specification gives it as a connection provider returning a live
  storage handle; the model counts the connections opened and closed.
\<close>

definition connect_to_db :: "world \<Rightarrow> world" where
  "connect_to_db w = w\<lparr>opened := opened w + 1\<rparr>"

definition conn_close :: "world \<Rightarrow> world" where
  "conn_close w = w\<lparr>closed := closed w + 1\<rparr>"

definition logged :: "statement \<Rightarrow> world \<Rightarrow> world" where
  "logged s w = w\<lparr>statements := statements w @ [s]\<rparr>"

text \<open>
  \<^verbatim>\<open>ORDER BY key asc\<close> and \<^verbatim>\<open>ORDER BY key desc\<close>. The storage leaves the order of rows
  with equal keys open; the model takes the stable sort and its reverse. Text is
  compared character by character.
\<close>

definition order_rows :: "string \<Rightarrow> ('a \<Rightarrow> 'k::linorder) \<Rightarrow> 'a list \<Rightarrow> 'a list" where
  "order_rows order key rows =
     (if order = ''desc'' then rev (sort_key key rows) else sort_key key rows)"

text \<open>
  \<^verbatim>\<open>ORDER BY {sort_by} {order}\<close>: both are interpolated into the statement, so a text
  that names no column of the join (SQLSTATE 42703) or no direction (42601) is an
  error of the storage.
\<close>

definition order_by :: "string \<Rightarrow> string \<Rightarrow> joined_row list \<Rightarrow> error + joined_row list" where
  "order_by sort_by order rows =
     (if order \<noteq> ''asc'' \<and> order \<noteq> ''desc'' then Inl (DatabaseError ''42601'')
      else if sort_by = ''treasure_id'' then
        Inr (order_rows order (\<lambda>(i, n, c, a, p, s). i) rows)
      else if sort_by = ''treasure_name'' then
        Inr (order_rows order (\<lambda>(i, n, c, a, p, s). n) rows)
      else if sort_by = ''colour'' then
        Inr (order_rows order (\<lambda>(i, n, c, a, p, s). c) rows)
      else if sort_by = ''age'' then
        Inr (order_rows order (\<lambda>(i, n, c, a, p, s). a) rows)
      else if sort_by = ''cost_at_auction'' then
        Inr (order_rows order (\<lambda>(i, n, c, a, p, s). p) rows)
      else if sort_by = ''shop_name'' then
        Inr (order_rows order (\<lambda>(i, n, c, a, p, s). s) rows)
      else Inl (DatabaseError ''42703''))"

text \<open>
  \<^verbatim>\<open>FROM treasures JOIN shops ON treasures.shop_id = shops.shop_id\<close> with the six
  selected columns.
\<close>

definition join_shops :: "treasure list \<Rightarrow> shop list \<Rightarrow> joined_row list" where
  "join_shops ts ss =
     concat (map (\<lambda>t. map (\<lambda>s. (treasure.treasure_id t, treasure.treasure_name t,
                                  treasure.colour t, treasure.age t,
                                  treasure.cost_at_auction t, shop.shop_name s))
                           (filter (\<lambda>s. treasure.shop_id t = shop.shop_id s) ss)) ts)"

definition run_select_treasures ::
  "string \<Rightarrow> string \<Rightarrow> world \<Rightarrow> (error + joined_row list) \<times> world" where
  "run_select_treasures sort_by order w =
     (order_by sort_by order (join_shops (treasures w) (shops w)),
      logged (SelectTreasuresJoinShops sort_by order) w)"

text \<open>A row of \<^verbatim>\<open>treasures\<close> as the driver returns it.\<close>

definition tuple_of :: "treasure \<Rightarrow> treasure_tuple" where
  "tuple_of t = (treasure.treasure_id t, treasure.treasure_name t, treasure.colour t,
                 treasure.age t, treasure.cost_at_auction t, treasure.shop_id t)"

text \<open>
  Modelled from the spec: the schema (\<^verbatim>\<open>db/seed.py\<close>) is not among the sources. The
  specification gives \<^verbatim>\<open>treasure_id\<close> as generated by the storage and \<^verbatim>\<open>shop_id\<close> as a
  foreign key into \<^verbatim>\<open>shops\<close> whose violation (SQLSTATE 23503) rejects the insert.
  \<^verbatim>\<open>RETURNING *\<close> gives the inserted row.
\<close>

definition run_insert_treasure ::
  "NewTreasure \<Rightarrow> world \<Rightarrow> (error + treasure_tuple list) \<times> world" where
  "run_insert_treasure nt w =
     (let w1 = logged (InsertTreasure nt) w in
      if NewTreasure.shop_id nt \<in> set (map shop.shop_id (shops w)) then
        (let row = \<lparr>treasure.treasure_id = next_treasure_id w,
                    treasure.treasure_name = NewTreasure.treasure_name nt,
                    treasure.colour = NewTreasure.colour nt,
                    treasure.age = NewTreasure.age nt,
                    treasure.cost_at_auction = NewTreasure.cost_at_auction nt,
                    treasure.shop_id = NewTreasure.shop_id nt\<rparr>
         in (Inr [tuple_of row],
             w1\<lparr>treasures := treasures w @ [row],
                next_treasure_id := next_treasure_id w + 1\<rparr>))
      else (Inl (DatabaseError ''23503''), w1))"

text \<open>\<^verbatim>\<open>SELECT cost_at_auction FROM treasures WHERE treasure_id = :id\<close>\<close>

definition run_select_cost :: "int \<Rightarrow> world \<Rightarrow> cost list \<times> world" where
  "run_select_cost i w =
     (map treasure.cost_at_auction (filter (\<lambda>t. treasure.treasure_id t = i) (treasures w)),
      logged (SelectCostAtAuction i) w)"

text \<open>\<^verbatim>\<open>UPDATE treasures SET cost_at_auction = :price WHERE treasure_id = :id RETURNING *\<close>\<close>

definition set_cost :: "cost \<Rightarrow> int \<Rightarrow> treasure \<Rightarrow> treasure" where
  "set_cost price i t =
     (if treasure.treasure_id t = i then t\<lparr>treasure.cost_at_auction := price\<rparr> else t)"

definition run_update_cost :: "cost \<Rightarrow> int \<Rightarrow> world \<Rightarrow> treasure_tuple list \<times> world" where
  "run_update_cost price i w =
     (let ts = map (set_cost price i) (treasures w) in
      (map tuple_of (filter (\<lambda>t. treasure.treasure_id t = i) ts),
       (logged (UpdateCostAtAuction price i) w)\<lparr>treasures := ts\<rparr>))"

text \<open>\<^verbatim>\<open>DELETE from treasures WHERE treasure_id = :id RETURNING*\<close>\<close>

definition run_delete_treasure :: "int \<Rightarrow> world \<Rightarrow> treasure_tuple list \<times> world" where
  "run_delete_treasure i w =
     (map tuple_of (filter (\<lambda>t. treasure.treasure_id t = i) (treasures w)),
      (logged (DeleteTreasure i) w)
        \<lparr>treasures := filter (\<lambda>t. treasure.treasure_id t \<noteq> i) (treasures w)\<rparr>)"







section \<open>Python helpers\<close>

text \<open>\<^verbatim>\<open>rows[0]\<close>: raises \<^verbatim>\<open>IndexError\<close> on the empty list.\<close>

definition index0 :: "'a list \<Rightarrow> error + 'a" where
  "index0 rows = (case rows of [] \<Rightarrow> Inl IndexError | r # _ \<Rightarrow> Inr r)"

text \<open>\<^verbatim>\<open>f"{n}"\<close> for an integer: its decimal digits, with a sign when negative.\<close>

definition digit :: "nat \<Rightarrow> char" where
  "digit d = ''0123456789'' ! d"

function str_nat :: "nat \<Rightarrow> string" where
  "str_nat n = (if n < 10 then [digit n] else str_nat (n div 10) @ [digit (n mod 10)])"
  by pat_completeness auto
termination
  by (relation "measure id") auto

declare str_nat.simps [simp del]

definition str_int :: "int \<Rightarrow> string" where
  "str_int i = (if i < 0 then CHR ''-'' # str_nat (nat (- i)) else str_nat (nat i))"


section \<open>The handlers\<close>

definition treasures_columns :: "string list" where
  "treasures_columns = [''treasure_id'', ''treasure_name'', ''colour'',
                        ''age'', ''cost_at_auction'', ''shop_name'']"

definition order_options :: "string list" where
  "order_options = [''asc'', ''desc'']"

text \<open>
  \<^verbatim>\<open>if min_age:\<close>, \<^verbatim>\<open>if max_age:\<close> and \<^verbatim>\<open>if colour:\<close> test the truth value of the
  parameter: \<^verbatim>\<open>None\<close>, \<^verbatim>\<open>0\<close> and the empty string are false.
\<close>

definition filter_min_age :: "int option \<Rightarrow> listed list \<Rightarrow> listed list" where
  "filter_min_age min_age data =
     (case min_age of
        None \<Rightarrow> data
      | Some m \<Rightarrow> if m \<noteq> 0 then filter (\<lambda>treasure. m \<le> listed.age treasure) data else data)"

definition filter_max_age :: "int option \<Rightarrow> listed list \<Rightarrow> listed list" where
  "filter_max_age max_age data =
     (case max_age of
        None \<Rightarrow> data
      | Some m \<Rightarrow> if m \<noteq> 0 then filter (\<lambda>treasure. listed.age treasure \<le> m) data else data)"

definition filter_colour :: "string option \<Rightarrow> listed list \<Rightarrow> listed list" where
  "filter_colour colour' data =
     (case colour' of
        None \<Rightarrow> data
      | Some c \<Rightarrow> if c \<noteq> [] then filter (\<lambda>treasure. listed.colour treasure = c) data else data)"

definition listed_of :: "joined_row \<Rightarrow> listed" where
  "listed_of treasure =
     (case treasure of (i, n, c, a, p, s) \<Rightarrow>
        \<lparr>listed.treasure_id = i, listed.treasure_name = n, listed.colour = c,
         listed.age = a, listed.cost_at_auction = p, listed.shop_name = s\<rparr>)"

text \<open>
  \<^verbatim>\<open>GET /api/treasures\<close>. A parameter the request leaves out takes its default:
  \<^verbatim>\<open>"age"\<close>, \<^verbatim>\<open>'asc'\<close>, \<^verbatim>\<open>None\<close>. The result is the status code with the list under
  \<^verbatim>\<open>"treasures"\<close>.
\<close>

definition get_treasures ::
  "string \<Rightarrow> string \<Rightarrow> string option \<Rightarrow> int option \<Rightarrow> int option \<Rightarrow> world
     \<Rightarrow> (error + int \<times> listed list) \<times> world" where
  "get_treasures sort_by order colour' max_age min_age w =
     (if sort_by \<notin> set treasures_columns then
        (Inl (HTTPException 422 (''Invalid sort field: '' @ sort_by)), w)
      else if order \<notin> set order_options then
        (Inl (HTTPException 422 (''Invalid order field: '' @ order)), w)
      else
        (let conn = connect_to_db w in
         case run_select_treasures sort_by order conn of
           (Inl e, w1) \<Rightarrow> (Inl e, w1)
         | (Inr rows, w1) \<Rightarrow>
             (let data = map listed_of rows;
                  data = filter_min_age min_age data;
                  data = filter_max_age max_age data;
                  data = filter_colour colour' data
              in (Inr (200, data), conn_close w1))))"

definition created_of :: "treasure_tuple \<Rightarrow> created" where
  "created_of r =
     (case r of (i, n, c, a, p, s) \<Rightarrow>
        \<lparr>created.treasure_id = i, created.treasure_name = n, created.colour = c,
         created.age = a, created.cost_at_auction = p, created.shop_id = s\<rparr>)"

text \<open>
  \<^verbatim>\<open>POST /api/treasures\<close>, over any behaviour \<open>run\<close> of the insert statement. The
  \<^verbatim>\<open>except\<close> clause replaces a \<^verbatim>\<open>DatabaseError\<close> and lets any other exception pass;
  the \<^verbatim>\<open>finally\<close> clause closes the connection on every path.
\<close>

definition post_treasure_with ::
  "(NewTreasure \<Rightarrow> world \<Rightarrow> (error + treasure_tuple list) \<times> world) \<Rightarrow> NewTreasure \<Rightarrow> world
     \<Rightarrow> (error + int \<times> created) \<times> world" where
  "post_treasure_with run new_treasure w =
     (let conn = connect_to_db w in
      case run new_treasure conn of
        (Inr new_query, w1) \<Rightarrow>
          (case index0 new_query of
             Inr r \<Rightarrow> (Inr (201, created_of r), conn_close w1)
           | Inl e \<Rightarrow> (Inl e, conn_close w1))
      | (Inl (DatabaseError dberror), w1) \<Rightarrow>
          (Inl (HTTPException 422
             (''shop id '' @ str_int (NewTreasure.shop_id new_treasure) @ '' is out of range'')),
           conn_close w1)
      | (Inl e, w1) \<Rightarrow> (Inl e, conn_close w1))"

definition post_treasure :: "NewTreasure \<Rightarrow> world \<Rightarrow> (error + int \<times> created) \<times> world" where
  "post_treasure = post_treasure_with run_insert_treasure"

text \<open>
  \<^verbatim>\<open>PATCH /api/treasures/{treasure_id}\<close>; \<open>new_price\<close> is the \<^verbatim>\<open>cost_at_auction\<close> of
  the body. The connection is closed on the last line only.
\<close>

definition patch_treasure :: "int \<Rightarrow> cost \<Rightarrow> world \<Rightarrow> (error + int \<times> unit) \<times> world" where
  "patch_treasure treasure_id' new_price w =
     (let conn = connect_to_db w in
      case run_select_cost treasure_id' conn of
        (get_current_price, w1) \<Rightarrow>
          (case index0 get_current_price of
             Inl e \<Rightarrow> (Inl e, w1)
           | Inr current \<Rightarrow>
               if current \<le> new_price then
                 (Inl (ValueError [Str ''The current price is '', Float current,
                                   Str '', please enter a lower price'']), w1)
               else
                 (case run_update_cost new_price treasure_id' w1 of
                    (set_new_price, w2) \<Rightarrow> (Inr (204, ()), conn_close w2))))"

text \<open>\<^verbatim>\<open>DELETE /api/treasures/{treasure_id}\<close>; the \<^verbatim>\<open>print\<close> is left out.\<close>

definition delete_treasure :: "int \<Rightarrow> world \<Rightarrow> (error + int \<times> unit) \<times> world" where
  "delete_treasure treasure_id' w =
     (let conn = connect_to_db w in
      case run_delete_treasure treasure_id' conn of
        (deleted, w1) \<Rightarrow>
          if deleted = [] then
            (Inl (ValueError [Str (''There is no treasure with id '' @ str_int treasure_id')]),
             w1)
          else (Inr (204, ()), conn_close w1))"




section \<open>Ordered lists\<close>

text \<open>
  A list is in the order \<^verbatim>\<open>asc\<close> by a key when the keys never decrease along it, and in
  the order \<^verbatim>\<open>desc\<close> when they never increase.
\<close>

definition in_order :: "string \<Rightarrow> ('a \<Rightarrow> 'k::linorder) \<Rightarrow> 'a list \<Rightarrow> bool" where
  "in_order order key xs =
     (if order = ''desc'' then sorted_wrt (\<lambda>a b. key b \<le> key a) xs
      else sorted_wrt (\<lambda>a b. key a \<le> key b) xs)"

section \<open>A small stored state\<close>

text \<open>
  Three treasures in two shops and a third shop without any treasure; no connection
  has been opened yet.
\<close>

definition example_world :: world where
  "example_world =
     \<lparr>treasures =
        [\<lparr>treasure.treasure_id = 1, treasure.treasure_name = ''treasure-a'',
          treasure.colour = ''silver'', treasure.age = 13,
          treasure.cost_at_auction = 20, treasure.shop_id = 1\<rparr>,
         \<lparr>treasure.treasure_id = 2, treasure.treasure_name = ''treasure-d'',
          treasure.colour = ''azure'', treasure.age = 200,
          treasure.cost_at_auction = 1001 / 1000, treasure.shop_id = 2\<rparr>,
         \<lparr>treasure.treasure_id = 3, treasure.treasure_name = ''treasure-b'',
          treasure.colour = ''gold'', treasure.age = 5,
          treasure.cost_at_auction = 4999 / 100, treasure.shop_id = 1\<rparr>],
      shops =
        [\<lparr>shop.shop_id = 1, shop.shop_name = ''shop-b'', shop.slogan = ''slogan-b''\<rparr>,
         \<lparr>shop.shop_id = 2, shop.shop_name = ''shop-d'', shop.slogan = ''slogan-d''\<rparr>,
         \<lparr>shop.shop_id = 3, shop.shop_name = ''shop-e'', shop.slogan = ''slogan-e''\<rparr>],
      next_treasure_id = 4, opened = 0, closed = 0, statements = []\<rparr>"



text \<open>The body of the request the tests post, for a given shop.\<close>

definition steel_computer :: "int \<Rightarrow> NewTreasure" where
  "steel_computer s =
     \<lparr>NewTreasure.treasure_name = ''Steel Computer'', NewTreasure.colour = ''steel'',
      NewTreasure.age = 24, NewTreasure.cost_at_auction = 666, NewTreasure.shop_id = s\<rparr>"

text \<open>
  A storage whose insert statement fails for a reason other than the foreign key: a
  numeric value out of range (SQLSTATE 22003).
\<close>

definition out_of_range_run ::
  "NewTreasure \<Rightarrow> world \<Rightarrow> (error + treasure_tuple list) \<times> world" where
  "out_of_range_run nt w = (Inl (DatabaseError ''22003''), logged (InsertTreasure nt) w)"

section \<open>Auxiliary facts\<close>

lemma filter_key_unique:
  "distinct (map f xs) \<Longrightarrow> x \<in> set xs \<Longrightarrow> filter (\<lambda>y. f y = f x) xs = [x]"
proof (induction xs)
  case Nil
  then show ?case by simp
next
  case (Cons a xs)
  show ?case
  proof (cases "a = x")
    case True
    with Cons.prems have "\<forall>y\<in>set xs. f y \<noteq> f x" by (auto simp: image_iff)
    then have "filter (\<lambda>y. f y = f x) xs = []" by (simp add: filter_empty_conv)
    with True show ?thesis by simp
  next
    case False
    with Cons.prems have "x \<in> set xs" and "f a \<noteq> f x" by auto
    with Cons show ?thesis by simp
  qed
qed

lemma connect_to_db_fields:
  "treasures (connect_to_db w) = treasures w"
  "shops (connect_to_db w) = shops w"
  "next_treasure_id (connect_to_db w) = next_treasure_id w"
  "opened (connect_to_db w) = opened w + 1"
  "closed (connect_to_db w) = closed w"
  "statements (connect_to_db w) = statements w"
  by (simp_all add: connect_to_db_def)

lemma conn_close_fields:
  "treasures (conn_close w) = treasures w"
  "shops (conn_close w) = shops w"
  "next_treasure_id (conn_close w) = next_treasure_id w"
  "opened (conn_close w) = opened w"
  "closed (conn_close w) = closed w + 1"
  "statements (conn_close w) = statements w"
  by (simp_all add: conn_close_def)

lemma logged_fields:
  "treasures (logged s w) = treasures w"
  "shops (logged s w) = shops w"
  "next_treasure_id (logged s w) = next_treasure_id w"
  "opened (logged s w) = opened w"
  "closed (logged s w) = closed w"
  "statements (logged s w) = statements w @ [s]"
  by (simp_all add: logged_def)

lemmas world_fields = connect_to_db_fields conn_close_fields logged_fields

lemma filter_key_absent:
  "k \<notin> set (map f xs) \<Longrightarrow> filter (\<lambda>y. f y = k) xs = []"
  by (auto simp: filter_empty_conv)

lemma str_int_12: "str_int 12 = ''12''"
  by code_simp

lemma str_int_1: "str_int 1 = ''1''"
  by code_simp

lemma length_filter_key_unique:
  assumes "distinct (map f xs)" and "k \<in> set (map f xs)"
  shows "length (filter (\<lambda>y. f y \<noteq> k) xs) + 1 = length xs"
proof -
  from assms obtain x where x: "x \<in> set xs" "f x = k" by auto
  with assms have "filter (\<lambda>y. f y = k) xs = [x]"
    using filter_key_unique [of f xs x] by simp
  then have "length (filter (\<lambda>y. f y = k) xs) = 1" by simp
  moreover have "length (filter (\<lambda>y. f y = k) xs) + length (filter (\<lambda>y. \<not> f y = k) xs)
      = length xs"
    by (rule sum_length_filter_compl)
  ultimately show ?thesis by simp
qed

lemma sort_key_ascending: "sorted_wrt (\<lambda>a b. key a \<le> key b) (sort_key key rows)"
  using sorted_sort_key [of key rows] by (simp only: sorted_map)

lemma in_order_order_rows: "in_order order key (order_rows order key rows)"
  by (simp add: in_order_def order_rows_def sorted_wrt_rev sort_key_ascending)

lemma in_order_map: "in_order order (\<lambda>r. key (g r)) rows \<Longrightarrow> in_order order key (map g rows)"
  by (simp add: in_order_def sorted_wrt_map)

lemma in_order_filter: "in_order order key xs \<Longrightarrow> in_order order key (filter P xs)"
  by (simp add: in_order_def sorted_wrt_filter)

lemma in_order_filters:
  assumes "in_order order key xs"
  shows "in_order order key (filter_colour c (filter_max_age mx (filter_min_age mn xs)))"
proof -
  have a: "in_order order key (filter_min_age mn xs)"
    using assms by (simp add: filter_min_age_def in_order_filter split: option.split)
  then have b: "in_order order key (filter_max_age mx (filter_min_age mn xs))"
    by (simp add: filter_max_age_def in_order_filter split: option.split)
  then show ?thesis
    by (simp add: filter_colour_def in_order_filter split: option.split)
qed

lemma get_treasures_valid:
  assumes "order_by sort_by order (join_shops (treasures w) (shops w)) = Inr rows"
    and "sort_by \<in> set treasures_columns" and "order \<in> set order_options"
  shows "get_treasures sort_by order c mx mn w
           = (Inr (200, filter_colour c (filter_max_age mx (filter_min_age mn
                         (map listed_of rows)))),
              conn_close (logged (SelectTreasuresJoinShops sort_by order) (connect_to_db w)))"
  using assms by (simp add: get_treasures_def run_select_treasures_def world_fields Let_def)

lemma in_order_listed:
  assumes "\<And>r. key (listed_of r) = k r"
  shows "in_order order key
           (filter_colour c (filter_max_age mx (filter_min_age mn
              (map listed_of (order_rows order k rows)))))"
proof -
  have "in_order order k (order_rows order k rows)"
    by (rule in_order_order_rows)
  then have "in_order order (\<lambda>r. key (listed_of r)) (order_rows order k rows)"
    by (simp add: assms)
  then show ?thesis
    by (intro in_order_filters in_order_map)
qed

lemma example_join:
  "join_shops (treasures example_world) (shops example_world)
     = [(1, ''treasure-a'', ''silver'', 13, 20, ''shop-b''),
        (2, ''treasure-d'', ''azure'', 200, 1001 / 1000, ''shop-d''),
        (3, ''treasure-b'', ''gold'', 5, 4999 / 100, ''shop-b'')]"
  by (simp add: join_shops_def example_world_def)

lemma example_by_age:
  "order_by ''age'' ''asc'' (join_shops (treasures example_world) (shops example_world))
     = Inr [(3, ''treasure-b'', ''gold'', 5, 4999 / 100, ''shop-b''),
            (1, ''treasure-a'', ''silver'', 13, 20, ''shop-b''),
            (2, ''treasure-d'', ''azure'', 200, 1001 / 1000, ''shop-d'')]"
  by (simp add: example_join order_by_def order_rows_def)



lemma join_shops_length:
  assumes "distinct (map shop.shop_id ss)"
    and "\<forall>t\<in>set ts. treasure.shop_id t \<in> set (map shop.shop_id ss)"
  shows "length (join_shops ts ss) = length ts"
  using assms(2)
proof (induction ts)
  case Nil
  then show ?case by (simp add: join_shops_def)
next
  case (Cons t ts)
  then obtain s where s: "s \<in> set ss" "shop.shop_id s = treasure.shop_id t" by auto
  have "filter (\<lambda>y. shop.shop_id y = shop.shop_id s) ss = [s]"
    using assms(1) s(1) by (rule filter_key_unique)
  then have "filter (\<lambda>y. treasure.shop_id t = shop.shop_id y) ss = [s]"
    using s(2) by (simp add: eq_commute)
  with Cons show ?case by (simp add: join_shops_def)
qed

lemma get_treasures_default_length:
  assumes "distinct (map shop.shop_id (shops w))"
    and "\<forall>t\<in>set (treasures w). treasure.shop_id t \<in> set (map shop.shop_id (shops w))"
  shows "\<exists>data. fst (get_treasures ''age'' ''asc'' None None None w) = Inr (200, data) \<and>
           length data = length (treasures w)"
proof -
  let ?J = "join_shops (treasures w) (shops w)"
  have "order_by ''age'' ''asc'' ?J = Inr (order_rows ''asc'' (\<lambda>(i, n, c, a, p, s). a) ?J)"
    by (simp add: order_by_def)
  then have "fst (get_treasures ''age'' ''asc'' None None None w)
      = Inr (200, map listed_of (order_rows ''asc'' (\<lambda>(i, n, c, a, p, s). a) ?J))"
    by (simp add: get_treasures_valid treasures_columns_def order_options_def
        filter_min_age_def filter_max_age_def filter_colour_def)
  moreover have "length (map listed_of (order_rows ''asc'' (\<lambda>(i, n, c, a, p, s). a) ?J))
      = length (treasures w)"
    using assms by (simp add: order_rows_def join_shops_length)
  ultimately show ?thesis by simp
qed

lemma delete_treasure_world:
  "shops (snd (delete_treasure i w)) = shops w"
  "treasures (snd (delete_treasure i w))
     = filter (\<lambda>t. treasure.treasure_id t \<noteq> i) (treasures w)"
  by (simp_all add: delete_treasure_def run_delete_treasure_def world_fields Let_def)



















section \<open>Validation of the query parameters\<close>

text \<open>
  C5. A \<^verbatim>\<open>GET /api/treasures\<close> whose \<^verbatim>\<open>sort_by\<close> is not one of the six columns, or
  whose \<^verbatim>\<open>order\<close> is neither \<^verbatim>\<open>asc\<close> nor \<^verbatim>\<open>desc\<close>, raises an HTTP exception with
  status 422, and the world afterwards is the world before: no connection was opened,
  no statement was run and the tables are as they were.
\<close>

theorem get_treasures_invalid_422:
  assumes "sort_by \<notin> set treasures_columns \<or> order \<notin> set order_options"
  shows "\<exists>detail. get_treasures sort_by order c mx mn w
                    = (Inl (HTTPException 422 detail), w)"
  using assms by (auto simp: get_treasures_def)

theorem get_treasures_invalid_422_witness:
  "''cost'' \<notin> set treasures_columns \<and>
   (\<exists>detail. get_treasures ''cost'' ''asc'' None None None example_world
       = (Inl (HTTPException 422 detail), example_world))"
  using get_treasures_invalid_422 [of "''cost''" "''asc''" None None None example_world]
  by (simp add: treasures_columns_def)

section \<open>Updating a price\<close>

text \<open>
  C1. A \<^verbatim>\<open>PATCH /api/treasures/{treasure_id}\<close> on a stored treasure, the ids of the table
  being unique: when the new price is strictly lower than the stored one, the handler
  returns with status 204 and the table afterwards has the new price in the rows of that
  id and every other row as before; when the new price is greater than or equal to the
  stored one, the handler raises a \<^verbatim>\<open>ValueError\<close> (no HTTP exception) and the table is
  unchanged.
\<close>

theorem patch_treasure_price_rule:
  assumes "t \<in> set (treasures w)"
    and "distinct (map treasure.treasure_id (treasures w))"
  shows "(new_price < treasure.cost_at_auction t \<longrightarrow>
            fst (patch_treasure (treasure.treasure_id t) new_price w) = Inr (204, ()) \<and>
            treasures (snd (patch_treasure (treasure.treasure_id t) new_price w))
              = map (\<lambda>r. if treasure.treasure_id r = treasure.treasure_id t
                          then r\<lparr>treasure.cost_at_auction := new_price\<rparr> else r)
                    (treasures w)) \<and>
         (treasure.cost_at_auction t \<le> new_price \<longrightarrow>
            fst (patch_treasure (treasure.treasure_id t) new_price w)
              = Inl (ValueError [Str ''The current price is '',
                                 Float (treasure.cost_at_auction t),
                                 Str '', please enter a lower price'']) \<and>
            treasures (snd (patch_treasure (treasure.treasure_id t) new_price w))
              = treasures w)"
proof -
  have "filter (\<lambda>r. treasure.treasure_id r = treasure.treasure_id t) (treasures w) = [t]"
    using assms by (simp add: filter_key_unique)
  then have sel: "run_select_cost (treasure.treasure_id t) (connect_to_db w)
      = ([treasure.cost_at_auction t],
         logged (SelectCostAtAuction (treasure.treasure_id t)) (connect_to_db w))"
    by (simp add: run_select_cost_def world_fields)
  show ?thesis
    by (auto simp: patch_treasure_def sel index0_def run_update_cost_def Let_def
        world_fields set_cost_def)
qed

theorem patch_treasure_price_rule_witness:
  "fst (patch_treasure 1 5 example_world) = Inr (204, ()) \<and>
   map treasure.cost_at_auction (treasures (snd (patch_treasure 1 5 example_world)))
     = [5, 1001 / 1000, 4999 / 100] \<and>
   fst (patch_treasure 3 1000000 example_world)
     = Inl (ValueError [Str ''The current price is '', Float (4999 / 100),
                        Str '', please enter a lower price'']) \<and>
   treasures (snd (patch_treasure 3 1000000 example_world)) = treasures example_world"
  using patch_treasure_price_rule [of "treasures example_world ! 0" example_world 5]
    patch_treasure_price_rule [of "treasures example_world ! 2" example_world 1000000]
  by (simp add: example_world_def)

text \<open>
  C9. A \<^verbatim>\<open>PATCH\<close> for an id that no treasure has: the query for the current price
  returns no row, indexing it raises \<^verbatim>\<open>IndexError\<close>, the only statement run is that
  query (no update), the table is unchanged and the connection stays open.
\<close>

theorem patch_treasure_missing_id:
  assumes "i \<notin> set (map treasure.treasure_id (treasures w))"
  shows "fst (patch_treasure i new_price w) = Inl IndexError \<and>
         statements (snd (patch_treasure i new_price w))
           = statements w @ [SelectCostAtAuction i] \<and>
         treasures (snd (patch_treasure i new_price w)) = treasures w \<and>
         opened (snd (patch_treasure i new_price w)) = opened w + 1 \<and>
         closed (snd (patch_treasure i new_price w)) = closed w"
proof -
  have "filter (\<lambda>r. treasure.treasure_id r = i) (treasures w) = []"
    using assms by (rule filter_key_absent)
  then show ?thesis
    by (simp add: patch_treasure_def run_select_cost_def index0_def world_fields)
qed

theorem patch_treasure_missing_id_witness:
  "7 \<notin> set (map treasure.treasure_id (treasures example_world)) \<and>
   fst (patch_treasure 7 5 example_world) = Inl IndexError \<and>
   statements (snd (patch_treasure 7 5 example_world)) = [SelectCostAtAuction 7] \<and>
   treasures (snd (patch_treasure 7 5 example_world)) = treasures example_world"
  using patch_treasure_missing_id [of 7 example_world 5]
  by (simp add: example_world_def)

section \<open>Creating a treasure\<close>

text \<open>
  C6. A \<^verbatim>\<open>POST /api/treasures\<close> whose \<^verbatim>\<open>shop_id\<close> no shop has: the insert fails with the
  foreign-key violation, the handler raises an HTTP exception with status 422 and the
  detail \<^verbatim>\<open>shop id {shop_id} is out of range\<close>, the table is unchanged and the connection
  that was opened is closed.
\<close>

theorem post_treasure_unknown_shop:
  assumes "NewTreasure.shop_id nt \<notin> set (map shop.shop_id (shops w))"
  shows "fst (run_insert_treasure nt (connect_to_db w)) = Inl (DatabaseError ''23503'') \<and>
         fst (post_treasure nt w)
           = Inl (HTTPException 422
                   (''shop id '' @ str_int (NewTreasure.shop_id nt) @ '' is out of range'')) \<and>
         treasures (snd (post_treasure nt w)) = treasures w \<and>
         opened (snd (post_treasure nt w)) = opened w + 1 \<and>
         closed (snd (post_treasure nt w)) = closed w + 1"
  using assms
  by (simp add: post_treasure_def post_treasure_with_def run_insert_treasure_def
      Let_def world_fields)

theorem post_treasure_unknown_shop_witness:
  "NewTreasure.shop_id (steel_computer 12) \<notin> set (map shop.shop_id (shops example_world)) \<and>
   fst (post_treasure (steel_computer 12) example_world)
     = Inl (HTTPException 422 ''shop id 12 is out of range'') \<and>
   treasures (snd (post_treasure (steel_computer 12) example_world))
     = treasures example_world \<and>
   closed (snd (post_treasure (steel_computer 12) example_world)) = 1"
  using post_treasure_unknown_shop [of "steel_computer 12" example_world]
  by (simp add: example_world_def steel_computer_def str_int_12)

text \<open>
  C7. A \<^verbatim>\<open>POST /api/treasures\<close> whose \<^verbatim>\<open>shop_id\<close> some shop has: the handler returns
  with status 201 and the submitted values together with the generated id, under the key
  \<^verbatim>\<open>shop_id\<close>; the table afterwards is the table before with that one row appended.
\<close>

theorem post_treasure_creates:
  assumes "NewTreasure.shop_id nt \<in> set (map shop.shop_id (shops w))"
  shows "fst (post_treasure nt w)
           = Inr (201, \<lparr>created.treasure_id = next_treasure_id w,
                        created.treasure_name = NewTreasure.treasure_name nt,
                        created.colour = NewTreasure.colour nt,
                        created.age = NewTreasure.age nt,
                        created.cost_at_auction = NewTreasure.cost_at_auction nt,
                        created.shop_id = NewTreasure.shop_id nt\<rparr>) \<and>
         treasures (snd (post_treasure nt w))
           = treasures w @ [\<lparr>treasure.treasure_id = next_treasure_id w,
                              treasure.treasure_name = NewTreasure.treasure_name nt,
                              treasure.colour = NewTreasure.colour nt,
                              treasure.age = NewTreasure.age nt,
                              treasure.cost_at_auction = NewTreasure.cost_at_auction nt,
                              treasure.shop_id = NewTreasure.shop_id nt\<rparr>]"
  using assms
  by (simp add: post_treasure_def post_treasure_with_def run_insert_treasure_def
      Let_def world_fields index0_def created_of_def tuple_of_def)

theorem post_treasure_creates_witness:
  "NewTreasure.shop_id (steel_computer 1) \<in> set (map shop.shop_id (shops example_world)) \<and>
   fst (post_treasure (steel_computer 1) example_world)
     = Inr (201, \<lparr>created.treasure_id = 4, created.treasure_name = ''Steel Computer'',
                  created.colour = ''steel'', created.age = 24,
                  created.cost_at_auction = 666, created.shop_id = 1\<rparr>) \<and>
   length (treasures (snd (post_treasure (steel_computer 1) example_world))) = 4"
  using post_treasure_creates [of "steel_computer 1" example_world]
  by (simp add: example_world_def steel_computer_def)

text \<open>
  C10. Whatever the insert statement does: when it raises a \<^verbatim>\<open>DatabaseError\<close>, with any
  code, the handler raises the HTTP exception with status 422 whose detail names the
  submitted \<^verbatim>\<open>shop_id\<close> and nothing of the error.
\<close>

theorem post_treasure_any_database_error:
  assumes "fst (run nt (connect_to_db w)) = Inl (DatabaseError dberror)"
  shows "fst (post_treasure_with run nt w)
           = Inl (HTTPException 422
                   (''shop id '' @ str_int (NewTreasure.shop_id nt) @ '' is out of range''))"
  using assms
  by (cases "run nt (connect_to_db w)") (simp add: post_treasure_with_def)

theorem post_treasure_any_database_error_witness:
  "fst (out_of_range_run (steel_computer 1) (connect_to_db example_world))
     = Inl (DatabaseError ''22003'') \<and>
   NewTreasure.shop_id (steel_computer 1) \<in> set (map shop.shop_id (shops example_world)) \<and>
   fst (post_treasure_with out_of_range_run (steel_computer 1) example_world)
     = Inl (HTTPException 422 ''shop id 1 is out of range'')"
  using post_treasure_any_database_error
    [of out_of_range_run "steel_computer 1" example_world "''22003''"]
  by (simp add: out_of_range_run_def steel_computer_def str_int_1 example_world_def)

section \<open>Deleting a treasure\<close>

text \<open>
  C8. A \<^verbatim>\<open>DELETE /api/treasures/{treasure_id}\<close>, the ids of the table being unique: when a
  treasure has the id, the handler returns with status 204, the table afterwards is the
  table before without the rows of that id, and it is shorter by exactly one; the handler
  raises a \<^verbatim>\<open>ValueError\<close> exactly when no treasure has the id, and the table is then
  unchanged. When moreover the shop ids are unique and every treasure refers to a shop,
  the list that \<^verbatim>\<open>GET /api/treasures\<close> returns after a successful delete is shorter by
  exactly one than the list it returned before.
\<close>

theorem delete_treasure_rule:
  assumes "distinct (map treasure.treasure_id (treasures w))"
  shows "(i \<in> set (map treasure.treasure_id (treasures w)) \<longrightarrow>
            fst (delete_treasure i w) = Inr (204, ()) \<and>
            treasures (snd (delete_treasure i w))
              = filter (\<lambda>t. treasure.treasure_id t \<noteq> i) (treasures w) \<and>
            length (treasures (snd (delete_treasure i w))) + 1 = length (treasures w)) \<and>
         ((\<exists>parts. fst (delete_treasure i w) = Inl (ValueError parts))
            \<longleftrightarrow> i \<notin> set (map treasure.treasure_id (treasures w))) \<and>
         (i \<notin> set (map treasure.treasure_id (treasures w)) \<longrightarrow>
            treasures (snd (delete_treasure i w)) = treasures w) \<and>
         (i \<in> set (map treasure.treasure_id (treasures w)) \<longrightarrow>
          distinct (map shop.shop_id (shops w)) \<longrightarrow>
          (\<forall>t\<in>set (treasures w). treasure.shop_id t \<in> set (map shop.shop_id (shops w))) \<longrightarrow>
            (\<exists>before after.
               fst (get_treasures ''age'' ''asc'' None None None w) = Inr (200, before) \<and>
               fst (get_treasures ''age'' ''asc'' None None None (snd (delete_treasure i w)))
                 = Inr (200, after) \<and>
               length after + 1 = length before))"
proof -
  let ?w' = "snd (delete_treasure i w)"
  have w': "shops ?w' = shops w"
    "treasures ?w' = filter (\<lambda>t. treasure.treasure_id t \<noteq> i) (treasures w)"
    by (rule delete_treasure_world)+
  have table: "(i \<in> set (map treasure.treasure_id (treasures w)) \<longrightarrow>
            fst (delete_treasure i w) = Inr (204, ()) \<and>
            treasures ?w' = filter (\<lambda>t. treasure.treasure_id t \<noteq> i) (treasures w) \<and>
            length (treasures ?w') + 1 = length (treasures w)) \<and>
         ((\<exists>parts. fst (delete_treasure i w) = Inl (ValueError parts))
            \<longleftrightarrow> i \<notin> set (map treasure.treasure_id (treasures w))) \<and>
         (i \<notin> set (map treasure.treasure_id (treasures w)) \<longrightarrow> treasures ?w' = treasures w)"
  proof (cases "i \<in> set (map treasure.treasure_id (treasures w))")
    case True
    then have ne: "filter (\<lambda>t. treasure.treasure_id t = i) (treasures w) \<noteq> []"
      by (auto simp: filter_empty_conv)
    have len: "length (filter (\<lambda>t. treasure.treasure_id t \<noteq> i) (treasures w)) + 1
        = length (treasures w)"
      using assms True by (rule length_filter_key_unique)
    show ?thesis
      using True ne len
      by (simp add: delete_treasure_def run_delete_treasure_def world_fields)
  next
    case False
    then have e: "filter (\<lambda>t. treasure.treasure_id t = i) (treasures w) = []"
      by (rule filter_key_absent)
    have same: "filter (\<lambda>t. treasure.treasure_id t \<noteq> i) (treasures w) = treasures w"
      using False by (auto simp: filter_id_conv)
    show ?thesis
      using False e same
      by (simp add: delete_treasure_def run_delete_treasure_def world_fields)
  qed
  have listing: "\<exists>before after.
               fst (get_treasures ''age'' ''asc'' None None None w) = Inr (200, before) \<and>
               fst (get_treasures ''age'' ''asc'' None None None ?w') = Inr (200, after) \<and>
               length after + 1 = length before"
    if i: "i \<in> set (map treasure.treasure_id (treasures w))"
      and d: "distinct (map shop.shop_id (shops w))"
      and fk: "\<forall>t\<in>set (treasures w). treasure.shop_id t \<in> set (map shop.shop_id (shops w))"
  proof -
    obtain before where b: "fst (get_treasures ''age'' ''asc'' None None None w)
        = Inr (200, before)" "length before = length (treasures w)"
      using get_treasures_default_length [OF d fk] by blast
    have "distinct (map shop.shop_id (shops ?w'))" using d w' by simp
    moreover have "\<forall>t\<in>set (treasures ?w'). treasure.shop_id t \<in> set (map shop.shop_id (shops ?w'))"
      using fk w' by simp
    ultimately obtain after where a: "fst (get_treasures ''age'' ''asc'' None None None ?w')
        = Inr (200, after)" "length after = length (treasures ?w')"
      using get_treasures_default_length [of ?w'] by blast
    have "length (treasures ?w') + 1 = length (treasures w)"
      using table i by blast
    with a b show ?thesis by simp
  qed
  from table listing show ?thesis by blast
qed

theorem delete_treasure_rule_witness:
  "distinct (map treasure.treasure_id (treasures example_world)) \<and>
   fst (delete_treasure 2 example_world) = Inr (204, ()) \<and>
   map treasure.treasure_id (treasures (snd (delete_treasure 2 example_world))) = [1, 3] \<and>
   (\<exists>before after.
      fst (get_treasures ''age'' ''asc'' None None None example_world) = Inr (200, before) \<and>
      fst (get_treasures ''age'' ''asc'' None None None (snd (delete_treasure 2 example_world)))
        = Inr (200, after) \<and>
      length after + 1 = length before) \<and>
   (\<exists>parts. fst (delete_treasure 7 example_world) = Inl (ValueError parts)) \<and>
   treasures (snd (delete_treasure 7 example_world)) = treasures example_world"
  using delete_treasure_rule [of example_world 2] delete_treasure_rule [of example_world 7]
  by (simp add: example_world_def)

section \<open>Listing treasures\<close>

text \<open>
  C4. For each of the six columns and each of the two directions, the list that
  \<^verbatim>\<open>GET /api/treasures\<close> returns is in that order by that field, whatever filters for
  colour and age the request carries.
\<close>

theorem get_treasures_in_order:
  assumes "sort_by \<in> set treasures_columns" and "order \<in> set order_options"
  shows "\<exists>data. fst (get_treasures sort_by order c mx mn w) = Inr (200, data) \<and>
           (sort_by = ''treasure_id'' \<longrightarrow> in_order order listed.treasure_id data) \<and>
           (sort_by = ''treasure_name'' \<longrightarrow> in_order order listed.treasure_name data) \<and>
           (sort_by = ''colour'' \<longrightarrow> in_order order listed.colour data) \<and>
           (sort_by = ''age'' \<longrightarrow> in_order order listed.age data) \<and>
           (sort_by = ''cost_at_auction'' \<longrightarrow> in_order order listed.cost_at_auction data) \<and>
           (sort_by = ''shop_name'' \<longrightarrow> in_order order listed.shop_name data)"
proof -
  let ?J = "join_shops (treasures w) (shops w)"
  have ord: "order = ''asc'' \<or> order = ''desc''"
    using assms(2) by (simp add: order_options_def)
  have col: "sort_by = ''treasure_id'' \<or> sort_by = ''treasure_name'' \<or> sort_by = ''colour'' \<or>
      sort_by = ''age'' \<or> sort_by = ''cost_at_auction'' \<or> sort_by = ''shop_name''"
    using assms(1) by (simp add: treasures_columns_def)
  from col show ?thesis
  proof (elim disjE)
    assume s: "sort_by = ''treasure_id''"
    have "order_by sort_by order ?J = Inr (order_rows order (\<lambda>(i, n, c, a, p, s). i) ?J)"
      using ord s by (auto simp: order_by_def)
    then have "fst (get_treasures sort_by order c mx mn w) = Inr (200,
        filter_colour c (filter_max_age mx (filter_min_age mn (map listed_of
          (order_rows order (\<lambda>(i, n, c, a, p, s). i) ?J)))))"
      using assms by (simp add: get_treasures_valid)
    moreover have "in_order order listed.treasure_id
        (filter_colour c (filter_max_age mx (filter_min_age mn (map listed_of
          (order_rows order (\<lambda>(i, n, c, a, p, s). i) ?J)))))"
      by (rule in_order_listed) (simp add: listed_of_def split: prod.split)
    ultimately show ?thesis using s by simp
  next
    assume s: "sort_by = ''treasure_name''"
    have "order_by sort_by order ?J = Inr (order_rows order (\<lambda>(i, n, c, a, p, s). n) ?J)"
      using ord s by (auto simp: order_by_def)
    then have "fst (get_treasures sort_by order c mx mn w) = Inr (200,
        filter_colour c (filter_max_age mx (filter_min_age mn (map listed_of
          (order_rows order (\<lambda>(i, n, c, a, p, s). n) ?J)))))"
      using assms by (simp add: get_treasures_valid)
    moreover have "in_order order listed.treasure_name
        (filter_colour c (filter_max_age mx (filter_min_age mn (map listed_of
          (order_rows order (\<lambda>(i, n, c, a, p, s). n) ?J)))))"
      by (rule in_order_listed) (simp add: listed_of_def split: prod.split)
    ultimately show ?thesis using s by simp
  next
    assume s: "sort_by = ''colour''"
    have "order_by sort_by order ?J = Inr (order_rows order (\<lambda>(i, n, c, a, p, s). c) ?J)"
      using ord s by (auto simp: order_by_def)
    then have "fst (get_treasures sort_by order c mx mn w) = Inr (200,
        filter_colour c (filter_max_age mx (filter_min_age mn (map listed_of
          (order_rows order (\<lambda>(i, n, c, a, p, s). c) ?J)))))"
      using assms by (simp add: get_treasures_valid)
    moreover have "in_order order listed.colour
        (filter_colour c (filter_max_age mx (filter_min_age mn (map listed_of
          (order_rows order (\<lambda>(i, n, c, a, p, s). c) ?J)))))"
      by (rule in_order_listed) (simp add: listed_of_def split: prod.split)
    ultimately show ?thesis using s by simp
  next
    assume s: "sort_by = ''age''"
    have "order_by sort_by order ?J = Inr (order_rows order (\<lambda>(i, n, c, a, p, s). a) ?J)"
      using ord s by (auto simp: order_by_def)
    then have "fst (get_treasures sort_by order c mx mn w) = Inr (200,
        filter_colour c (filter_max_age mx (filter_min_age mn (map listed_of
          (order_rows order (\<lambda>(i, n, c, a, p, s). a) ?J)))))"
      using assms by (simp add: get_treasures_valid)
    moreover have "in_order order listed.age
        (filter_colour c (filter_max_age mx (filter_min_age mn (map listed_of
          (order_rows order (\<lambda>(i, n, c, a, p, s). a) ?J)))))"
      by (rule in_order_listed) (simp add: listed_of_def split: prod.split)
    ultimately show ?thesis using s by simp
  next
    assume s: "sort_by = ''cost_at_auction''"
    have "order_by sort_by order ?J = Inr (order_rows order (\<lambda>(i, n, c, a, p, s). p) ?J)"
      using ord s by (auto simp: order_by_def)
    then have "fst (get_treasures sort_by order c mx mn w) = Inr (200,
        filter_colour c (filter_max_age mx (filter_min_age mn (map listed_of
          (order_rows order (\<lambda>(i, n, c, a, p, s). p) ?J)))))"
      using assms by (simp add: get_treasures_valid)
    moreover have "in_order order listed.cost_at_auction
        (filter_colour c (filter_max_age mx (filter_min_age mn (map listed_of
          (order_rows order (\<lambda>(i, n, c, a, p, s). p) ?J)))))"
      by (rule in_order_listed) (simp add: listed_of_def split: prod.split)
    ultimately show ?thesis using s by simp
  next
    assume s: "sort_by = ''shop_name''"
    have "order_by sort_by order ?J = Inr (order_rows order (\<lambda>(i, n, c, a, p, s). s) ?J)"
      using ord s by (auto simp: order_by_def)
    then have "fst (get_treasures sort_by order c mx mn w) = Inr (200,
        filter_colour c (filter_max_age mx (filter_min_age mn (map listed_of
          (order_rows order (\<lambda>(i, n, c, a, p, s). s) ?J)))))"
      using assms by (simp add: get_treasures_valid)
    moreover have "in_order order listed.shop_name
        (filter_colour c (filter_max_age mx (filter_min_age mn (map listed_of
          (order_rows order (\<lambda>(i, n, c, a, p, s). s) ?J)))))"
      by (rule in_order_listed) (simp add: listed_of_def split: prod.split)
    ultimately show ?thesis using s by simp
  qed
qed

theorem get_treasures_in_order_witness:
  "''cost_at_auction'' \<in> set treasures_columns \<and> ''desc'' \<in> set order_options \<and>
   (\<exists>data. fst (get_treasures ''cost_at_auction'' ''desc'' None None (Some 10) example_world)
              = Inr (200, data) \<and>
           in_order ''desc'' listed.cost_at_auction data)"
  using get_treasures_in_order
    [of "''cost_at_auction''" "''desc''" None None "Some 10" example_world]
  by (simp add: treasures_columns_def order_options_def)

text \<open>
  C2. The filters are guarded by the truth value of their parameter, so \<^verbatim>\<open>max_age=0\<close>
  filters nothing: on the small stored state the request returns all three treasures,
  of age 5, 13 and 200, none of which is at most 0.
\<close>

theorem get_treasures_max_age_zero:
  "fst (get_treasures ''age'' ''asc'' None (Some 0) None example_world)
     = Inr (200, map listed_of
                   [(3, ''treasure-b'', ''gold'', 5, 4999 / 100, ''shop-b''),
                    (1, ''treasure-a'', ''silver'', 13, 20, ''shop-b''),
                    (2, ''treasure-d'', ''azure'', 200, 1001 / 1000, ''shop-d'')])"
  by (simp add: get_treasures_valid [OF example_by_age] treasures_columns_def
      order_options_def filter_min_age_def filter_max_age_def filter_colour_def)

text \<open>The empty colour filters nothing either: no treasure has the empty colour.\<close>

lemma get_treasures_empty_colour:
  "fst (get_treasures ''age'' ''asc'' (Some []) None None example_world)
     = Inr (200, map listed_of
                   [(3, ''treasure-b'', ''gold'', 5, 4999 / 100, ''shop-b''),
                    (1, ''treasure-a'', ''silver'', 13, 20, ''shop-b''),
                    (2, ''treasure-d'', ''azure'', 200, 1001 / 1000, ''shop-d'')])"
  by (simp add: get_treasures_valid [OF example_by_age] treasures_columns_def
      order_options_def filter_min_age_def filter_max_age_def filter_colour_def)

text \<open>
  What the handler does for every valid request: a bound that is supplied and is not 0,
  and a colour that is supplied and is not empty, select exactly the records that
  satisfy them; the order of the fetched rows is kept.
\<close>

lemma get_treasures_filters:
  assumes "sort_by \<in> set treasures_columns" and "order \<in> set order_options"
  shows "\<exists>rows. order_by sort_by order (join_shops (treasures w) (shops w)) = Inr rows \<and>
           fst (get_treasures sort_by order c mx mn w)
             = Inr (200, filter (\<lambda>t.
                 (case mn of None \<Rightarrow> True | Some m \<Rightarrow> m = 0 \<or> m \<le> listed.age t) \<and>
                 (case mx of None \<Rightarrow> True | Some m \<Rightarrow> m = 0 \<or> listed.age t \<le> m) \<and>
                 (case c of None \<Rightarrow> True | Some k \<Rightarrow> k = [] \<or> listed.colour t = k))
                 (map listed_of rows))"
proof -
  have "order = ''asc'' \<or> order = ''desc''"
    using assms(2) by (simp add: order_options_def)
  moreover have "sort_by = ''treasure_id'' \<or> sort_by = ''treasure_name'' \<or>
      sort_by = ''colour'' \<or> sort_by = ''age'' \<or> sort_by = ''cost_at_auction'' \<or>
      sort_by = ''shop_name''"
    using assms(1) by (simp add: treasures_columns_def)
  ultimately obtain rows
    where rows: "order_by sort_by order (join_shops (treasures w) (shops w)) = Inr rows"
    by (auto simp: order_by_def)
  have "filter_colour c (filter_max_age mx (filter_min_age mn xs))
      = filter (\<lambda>t.
                 (case mn of None \<Rightarrow> True | Some m \<Rightarrow> m = 0 \<or> m \<le> listed.age t) \<and>
                 (case mx of None \<Rightarrow> True | Some m \<Rightarrow> m = 0 \<or> listed.age t \<le> m) \<and>
                 (case c of None \<Rightarrow> True | Some k \<Rightarrow> k = [] \<or> listed.colour t = k)) xs"
    for xs
    by (auto simp: filter_colour_def filter_max_age_def filter_min_age_def
        split: option.split intro: filter_cong)
  with rows show ?thesis
    using assms by (simp add: get_treasures_valid)
qed

section \<open>Listing shops\<close>




end
